theory Spec2Isabelle
  imports Main "HOL-Library.Word"
begin

section \<open>The resumable upload endpoint (app/api/tus/[[...path]]/route.ts)\<close>

text \<open>
  The route keeps, per upload id, a raw byte file and a JSON side file with the declared
  size and the offset reached, and a row of the \<open>files\<close> table owned by the transfer
  component. The four handlers POST, PATCH, HEAD and DELETE are modelled as functions from
  the persisted state and the request to the new state and the response.

  Modelling decisions:
  \<^item> JavaScript numbers are modelled as exact integers plus \<open>NaN\<close>; the rounding of
    doubles beyond \<open>2^53\<close> is not modelled.
  \<^item> The byte file and the side file of an upload id are two maps keyed by the id. POST,
    PATCH and HEAD reach a side file only under \<open>id.json\<close> and a byte file only under an id
    that has a side file. DELETE unlinks the bare id, so there the name \<open>x.json\<close> is the side
    file of \<open>x\<close>, and \<open>.\<close> and \<open>..\<close> are directories. The ids POST issues are hex
    digits, so no byte file of a session has such a name. Ids holding a path separator are
    not modelled.
  \<^item> Base64 decoding (\<open>Buffer.from(value, "base64").toString("utf-8")\<close>) is a parameter
    \<open>decode\<close> of the model. It never throws in Node, so the \<open>catch\<close> branch of
    \<open>parseMetadata\<close> is dead.
  \<^item> The generated uuid (dashes removed) and the clock are inputs of POST; times are
    integers. Header values are byte strings, so white space is the ASCII set and
    \<open>0xA0\<close>.
  \<^item> Of the tables \<open>transfers\<close> and \<open>files\<close>, the columns the route reads or writes are
    modelled. \<open>prisma.file.create\<close> throws on an id that already has a row, and
    \<open>prisma.file.update\<close> on an id that has none; \<open>BigInt(NaN)\<close> throws.
  \<^item> Of the file system calls, two can fail in the model: the append of a chunk in PATCH
    (an input of the model) and \<open>unlinkSync\<close> in DELETE on a directory.
  \<^item> An exception inside a handler is the branch returning status 500; the writes made
    before the exception stay in the state, as they do on disk.
\<close>

subsection \<open>JavaScript values\<close>

type_synonym bytes = "8 word list"

datatype jsnum = NaN | Num int

text \<open>What \<open>JSON.parse(JSON.stringify(x))\<close> gives for a number: \<open>NaN\<close> is written as \<open>null\<close>.\<close>

datatype json_number = JNull | JNum int

definition stringify_number :: "jsnum \<Rightarrow> json_number" where
  "stringify_number x = (case x of NaN \<Rightarrow> JNull | Num n \<Rightarrow> JNum n)"

text \<open>\<open>n >= v\<close> for a number \<open>n\<close> and a parsed JSON value: \<open>null\<close> converts to \<open>0\<close>.\<close>

definition ge_json :: "int \<Rightarrow> json_number \<Rightarrow> bool" where
  "ge_json n v = (case v of JNull \<Rightarrow> n \<ge> 0 | JNum k \<Rightarrow> n \<ge> k)"

definition isWhiteSpace :: "char \<Rightarrow> bool" where
  "isWhiteSpace c = ((of_char c :: nat) \<in> {9, 10, 11, 12, 13, 32, 160})"

definition digitValue :: "char \<Rightarrow> int option" where
  "digitValue c =
     (let n = (of_char c :: nat)
      in if 48 \<le> n \<and> n \<le> 57 then Some (int n - 48) else None)"

fun parseDigits :: "string \<Rightarrow> int \<Rightarrow> int" where
  "parseDigits [] acc = acc"
| "parseDigits (c # cs) acc =
     (case digitValue c of None \<Rightarrow> acc | Some d \<Rightarrow> parseDigits cs (10 * acc + d))"

text \<open>\<open>parseInt(str, 10)\<close>: leading white space, an optional sign, the longest run of
  decimal digits; \<open>NaN\<close> when there is no digit.\<close>

definition parseInt :: "string \<Rightarrow> jsnum" where
  "parseInt str =
     (let s = dropWhile isWhiteSpace str;
          neg = (case s of [] \<Rightarrow> False | c # _ \<Rightarrow> c = CHR ''-'');
          s' = (case s of [] \<Rightarrow> []
                | c # cs \<Rightarrow> if c = CHR ''-'' \<or> c = CHR ''+'' then cs else s)
      in case s' of
           [] \<Rightarrow> NaN
         | c # _ \<Rightarrow>
             (case digitValue c of
                None \<Rightarrow> NaN
              | Some _ \<Rightarrow> Num ((if neg then - 1 else 1) * parseDigits s' 0)))"

text \<open>\<open>h || d\<close> for a header value: absent and empty are both falsy.\<close>

definition or_default :: "string option \<Rightarrow> string \<Rightarrow> string" where
  "or_default h d = (case h of None \<Rightarrow> d | Some v \<Rightarrow> if v = [] then d else v)"

text \<open>\<open>str.split(sep)\<close> for a one-character separator.\<close>

fun split :: "char \<Rightarrow> string \<Rightarrow> string list" where
  "split sep [] = [[]]"
| "split sep (c # cs) =
     (if c = sep then [] # split sep cs
      else (case split sep cs of [] \<Rightarrow> [[c]] | w # ws \<Rightarrow> (c # w) # ws))"

definition trim :: "string \<Rightarrow> string" where
  "trim s = rev (dropWhile isWhiteSpace (rev (dropWhile isWhiteSpace s)))"

fun includes_str :: "string \<Rightarrow> string \<Rightarrow> bool" where
  "includes_str [] sub = (sub = [])"
| "includes_str (c # cs) sub = (take (length sub) (c # cs) = sub \<or> includes_str cs sub)"

subsection \<open>Persisted state\<close>

record upload_meta =
  meta_id :: string
  meta_metadata :: "string \<rightharpoonup> string"
  meta_size :: json_number
  meta_offset :: int
  meta_creation_date :: int

record transfer_row =
  transfer_expiresAt :: int
  transfer_status :: string

record file_row =
  file_transferId :: string
  file_filename :: string
  file_originalName :: string
  file_size :: int
  file_mimeType :: string
  file_uploadOffset :: int
  file_uploadComplete :: bool

record state =
  blobs :: "string \<rightharpoonup> bytes"
  metas :: "string \<rightharpoonup> upload_meta"
  transfers :: "string \<rightharpoonup> transfer_row"
  files :: "string \<rightharpoonup> file_row"

subsection \<open>Requests and responses\<close>

record post_request =
  post_upload_length :: "string option"
  post_upload_metadata :: "string option"
  post_host :: "string option"
  post_body :: bytes

record patch_request =
  patch_path :: "string list option"
  patch_upload_offset :: "string option"
  patch_body :: bytes

record id_request =
  req_path :: "string list option"

record cors_headers =
  allow_origin :: string
  allow_methods :: string
  allow_headers :: string
  expose_headers :: string
  tus_resumable :: string
  tus_version :: string
  tus_extension :: string
  tus_max_size :: int

record response =
  resp_status :: nat
  resp_body :: "string option"
  resp_cors :: cors_headers
  hdr_location :: "string option"
  hdr_upload_offset :: "int option"
  hdr_upload_length :: "json_number option"
  hdr_cache_control :: "string option"

definition MAX_SIZE :: int where
  "MAX_SIZE = 100 * 1024 * 1024 * 1024"

definition getCorsHeaders :: cors_headers where
  "getCorsHeaders =
     \<lparr>allow_origin = ''*'',
      allow_methods = ''POST, PATCH, HEAD, DELETE, OPTIONS'',
      allow_headers = ''Content-Type, Upload-Length, Upload-Offset, Upload-Metadata, Tus-Resumable, Tus-Version, Tus-Extension, Tus-Max-Size, Content-Length'',
      expose_headers = ''Upload-Offset, Upload-Length, Tus-Resumable, Tus-Version, Tus-Extension, Tus-Max-Size, Location, Upload-Metadata'',
      tus_resumable = ''1.0.0'',
      tus_version = ''1.0.0'',
      tus_extension = ''creation,creation-with-upload,termination'',
      tus_max_size = MAX_SIZE\<rparr>"

text \<open>\<open>new Response(body, {status, headers: getCorsHeaders()})\<close>.\<close>

definition respond :: "nat \<Rightarrow> string option \<Rightarrow> response" where
  "respond st body =
     \<lparr>resp_status = st, resp_body = body, resp_cors = getCorsHeaders,
      hdr_location = None, hdr_upload_offset = None, hdr_upload_length = None,
      hdr_cache_control = None\<rparr>"

subsection \<open>parseMetadata\<close>

definition parseMetadata :: "(string \<Rightarrow> string) \<Rightarrow> string option \<Rightarrow> (string \<rightharpoonup> string)" where
  "parseMetadata decode metadataHeader =
     (case metadataHeader of
        None \<Rightarrow> Map.empty
      | Some h \<Rightarrow>
          if h = [] then Map.empty
          else foldl
                 (\<lambda>result pair.
                    case split (CHR '' '') (trim pair) of
                      key # value # _ \<Rightarrow>
                        if key \<noteq> [] \<and> value \<noteq> [] then result(key \<mapsto> decode value)
                        else result
                    | _ \<Rightarrow> result)
                 Map.empty (split (CHR '','') h))"

subsection \<open>The handlers\<close>

text \<open>\<open>path?.[0]\<close> followed by the test \<open>!uploadId\<close>: no path, an empty path and an
  empty first segment all give no upload id.\<close>

definition uploadId_of :: "string list option \<Rightarrow> string option" where
  "uploadId_of path =
     (case path of
        None \<Rightarrow> None
      | Some [] \<Rightarrow> None
      | Some (x # _) \<Rightarrow> if x = [] then None else Some x)"

text \<open>A metadata value used under \<open>!v\<close> or \<open>v || d\<close>: undefined and empty are falsy.\<close>

definition truthy :: "string option \<Rightarrow> string option" where
  "truthy v = (case v of None \<Rightarrow> None | Some x \<Rightarrow> if x = [] then None else Some x)"

text \<open>\<open>appendFileSync\<close> creates the file when it is missing.\<close>

definition blob_of :: "state \<Rightarrow> string \<Rightarrow> bytes" where
  "blob_of s uploadId = (case blobs s uploadId of None \<Rightarrow> [] | Some b \<Rightarrow> b)"

definition appendFileSync :: "state \<Rightarrow> string \<Rightarrow> bytes \<Rightarrow> state" where
  "appendFileSync s uploadId data = s\<lparr>blobs := (blobs s)(uploadId \<mapsto> blob_of s uploadId @ data)\<rparr>"

definition OPTIONS :: response where
  "OPTIONS = respond 204 None"

definition POST :: "(string \<Rightarrow> string) \<Rightarrow> state \<Rightarrow> post_request \<Rightarrow> string \<Rightarrow> int \<Rightarrow> state \<times> response" where
  "POST decode s req uuid now =
     (let uploadLength = parseInt (or_default (post_upload_length req) ''0'');
          metadata = parseMetadata decode (post_upload_metadata req);
          filename = or_default (metadata ''filename'') ''unknown'';
          filetype = or_default (metadata ''filetype'') ''application/octet-stream''
      in case truthy (metadata ''transferId'') of
           None \<Rightarrow> (s, respond 400 (Some ''Missing transferId in metadata''))
         | Some transferId \<Rightarrow>
             (case transfers s transferId of
                None \<Rightarrow> (s, respond 404 (Some ''Transfer not found''))
              | Some transfer \<Rightarrow>
                  (let uploadId = uuid;
                       s1 = s\<lparr>blobs := (blobs s)(uploadId \<mapsto> [])\<rparr>;
                       s2 = s1\<lparr>metas := (metas s1)(uploadId \<mapsto>
                              \<lparr>meta_id = uploadId, meta_metadata = metadata,
                               meta_size = stringify_number uploadLength, meta_offset = 0,
                               meta_creation_date = now\<rparr>)\<rparr>
                   in case uploadLength of
                        NaN \<Rightarrow> (s2, respond 500 (Some ''Internal server error''))
                      | Num declaredLength \<Rightarrow>
                          if files s2 uploadId \<noteq> None
                          then (s2, respond 500 (Some ''Internal server error''))
                          else
                            (let s3 = s2\<lparr>files := (files s2)(uploadId \<mapsto>
                                   \<lparr>file_transferId = transferId, file_filename = uploadId,
                                    file_originalName = filename, file_size = declaredLength,
                                    file_mimeType = filetype, file_uploadOffset = 0,
                                    file_uploadComplete = False\<rparr>)\<rparr>;
                                 body = post_body req;
                                 s4 = (if length body > 0
                                       then (let s' = appendFileSync s3 uploadId body
                                             in s'\<lparr>metas := (metas s')(uploadId \<mapsto>
                                                  \<lparr>meta_id = uploadId, meta_metadata = metadata,
                                                   meta_size = stringify_number uploadLength,
                                                   meta_offset = int (length body),
                                                   meta_creation_date = now\<rparr>)\<rparr>)
                                       else s3);
                                 host = or_default (post_host req) ''localhost:3000'';
                                 protocol = (if includes_str host ''localhost'' then ''http'' else ''https'');
                                 location = protocol @ ''://'' @ host @ ''/api/tus/'' @ uploadId
                             in (s4, (respond 201 None)
                                       \<lparr>hdr_location := Some location,
                                        hdr_upload_offset := Some (int (length body))\<rparr>)))))"

text \<open>The outcome of \<open>appendFileSync\<close> in PATCH is an input of the model: it returns, or it
  throws after \<open>k\<close> bytes of the chunk reached the file (none when \<open>k = 0\<close>).\<close>

datatype append_outcome = Appended | AppendFailed nat

definition PATCH :: "state \<Rightarrow> patch_request \<Rightarrow> append_outcome \<Rightarrow> state \<times> response" where
  "PATCH s req io =
     (case uploadId_of (patch_path req) of
        None \<Rightarrow> (s, respond 400 (Some ''Upload ID required''))
      | Some uploadId \<Rightarrow>
          (case metas s uploadId of
             None \<Rightarrow> (s, respond 404 (Some ''Upload not found''))
           | Some meta \<Rightarrow>
               (let uploadOffset = parseInt (or_default (patch_upload_offset req) ''0'')
                in if uploadOffset \<noteq> Num (meta_offset meta)
                   then (s, (respond 409 (Some ''Offset mismatch''))
                              \<lparr>hdr_upload_offset := Some (meta_offset meta)\<rparr>)
                   else
                     (let body = patch_body req
                      in case (if length body > 0 then io else Appended) of
                           AppendFailed k \<Rightarrow>
                             (appendFileSync s uploadId (take k body),
                              respond 500 (Some ''Internal server error''))
                         | Appended \<Rightarrow>
                             (let s1 = (if length body > 0 then appendFileSync s uploadId body else s);
                                  newOffset = meta_offset meta + int (length body);
                                  s2 = s1\<lparr>metas := (metas s1)(uploadId \<mapsto>
                                         meta\<lparr>meta_offset := newOffset\<rparr>)\<rparr>
                              in case files s2 uploadId of
                                   None \<Rightarrow> (s2, respond 500 (Some ''Internal server error''))
                                 | Some f \<Rightarrow>
                                     (let f' = (if ge_json newOffset (meta_size meta)
                                                then f\<lparr>file_uploadComplete := True,
                                                       file_uploadOffset := newOffset,
                                                       file_size := newOffset\<rparr>
                                                else f\<lparr>file_uploadOffset := newOffset\<rparr>)
                                      in (s2\<lparr>files := (files s2)(uploadId \<mapsto> f')\<rparr>,
                                          (respond 204 None)
                                            \<lparr>hdr_upload_offset := Some newOffset\<rparr>)))))))"

definition HEAD :: "state \<Rightarrow> id_request \<Rightarrow> state \<times> response" where
  "HEAD s req =
     (case uploadId_of (req_path req) of
        None \<Rightarrow> (s, respond 400 None)
      | Some uploadId \<Rightarrow>
          (case metas s uploadId of
             None \<Rightarrow> (s, respond 404 None)
           | Some meta \<Rightarrow>
               (s, (respond 200 None)
                     \<lparr>hdr_upload_offset := Some (meta_offset meta),
                      hdr_upload_length := Some (meta_size meta),
                      hdr_cache_control := Some ''no-store''\<rparr>)))"

text \<open>The upload directory as DELETE reaches it. DELETE unlinks the bare id without looking
  for a session, so the name may be the directory itself or its parent (\<open>join\<close> resolves
  \<open>.\<close> and \<open>..\<close>; the module creates the directory when it is loaded), and a name
  ending in \<open>.json\<close> is the side file of the id before the suffix. \<open>unlinkSync\<close> throws on
  a directory.\<close>

definition strip_json :: "string \<Rightarrow> string option" where
  "strip_json name =
     (let n = length name
      in if 5 \<le> n \<and> drop (n - 5) name = ''.json'' then Some (take (n - 5) name) else None)"

definition is_directory :: "string \<Rightarrow> bool" where
  "is_directory name = (name = ''.'' \<or> name = ''..'')"

definition existsSync :: "state \<Rightarrow> string \<Rightarrow> bool" where
  "existsSync s name =
     (if is_directory name then True
      else if blobs s name \<noteq> None then True
      else (case strip_json name of None \<Rightarrow> False | Some uploadId \<Rightarrow> metas s uploadId \<noteq> None))"

definition unlinkSync :: "state \<Rightarrow> string \<Rightarrow> state option" where
  "unlinkSync s name =
     (if is_directory name then None
      else Some (s\<lparr>blobs := (blobs s)(name := None),
                   metas := (case strip_json name of
                               None \<Rightarrow> metas s
                             | Some uploadId \<Rightarrow> (metas s)(uploadId := None))\<rparr>))"

definition DELETE :: "state \<Rightarrow> id_request \<Rightarrow> state \<times> response" where
  "DELETE s req =
     (case uploadId_of (req_path req) of
        None \<Rightarrow> (s, respond 400 None)
      | Some uploadId \<Rightarrow>
          (let filePath = uploadId;
               metadataPath = uploadId @ ''.json''
           in case (if existsSync s filePath then unlinkSync s filePath else Some s) of
                None \<Rightarrow> (s, respond 500 None)
              | Some s1 \<Rightarrow>
                  (case (if existsSync s1 metadataPath then unlinkSync s1 metadataPath
                         else Some s1) of
                     None \<Rightarrow> (s1, respond 500 None)
                   | Some s2 \<Rightarrow>
                       (s2\<lparr>files := (files s2)(uploadId := None)\<rparr>, respond 204 None))))"

subsection \<open>Sequences of operations\<close>

text \<open>A client's requests, each with the inputs the environment supplies to its handler,
  run one after the other on the persisted state (the per-session serialisation the route
  relies on).\<close>

datatype op =
    Create post_request string int
  | Append patch_request append_outcome
  | Status id_request
  | Cancel id_request

fun step :: "(string \<Rightarrow> string) \<Rightarrow> state \<Rightarrow> op \<Rightarrow> state" where
  "step decode s (Create req uuid now) = fst (POST decode s req uuid now)"
| "step decode s (Append req io) = fst (PATCH s req io)"
| "step decode s (Status req) = fst (HEAD s req)"
| "step decode s (Cancel req) = fst (DELETE s req)"

definition run :: "(string \<Rightarrow> string) \<Rightarrow> state \<Rightarrow> op list \<Rightarrow> state" where
  "run decode s ops = foldl (step decode) s ops"

fun creates :: "op \<Rightarrow> string \<Rightarrow> bool" where
  "creates (Create req uuid now) uploadId = (uuid = uploadId)"
| "creates _ uploadId = False"

definition offsets_nonneg :: "state \<Rightarrow> bool" where
  "offsets_nonneg s = (\<forall>uploadId meta. metas s uploadId = Some meta \<longrightarrow> 0 \<le> meta_offset meta)"

subsection \<open>Sample requests and states\<close>

text \<open>The base64 values used in the sample requests: \<open>dDE=\<close> is \<open>t1\<close>, \<open>dDk=\<close> is
  \<open>t9\<close>, \<open>YS5iaW4=\<close> is \<open>a.bin\<close>. The sample store holds one transfer \<open>t1\<close> that
  expires at time 1000; \<open>s_created\<close>, \<open>s_at6\<close> and \<open>s_complete\<close> are the states of the
  spec's scenario (declared size 10, then 6 bytes, then 4 more).\<close>

definition sample_decode :: "string \<Rightarrow> string" where
  "sample_decode v =
     (if v = ''dDE='' then ''t1''
      else if v = ''dDk='' then ''t9''
      else if v = ''YS5iaW4='' then ''a.bin''
      else [])"

definition s0 :: state where
  "s0 = \<lparr>blobs = Map.empty, metas = Map.empty,
         transfers = [''t1'' \<mapsto> \<lparr>transfer_expiresAt = 1000, transfer_status = ''pending''\<rparr>],
         files = Map.empty\<rparr>"

definition create_req :: "string \<Rightarrow> string \<Rightarrow> bytes \<Rightarrow> post_request" where
  "create_req md len body =
     \<lparr>post_upload_length = Some len, post_upload_metadata = Some md,
      post_host = Some ''localhost:3000'', post_body = body\<rparr>"

definition md_t1 :: string where
  "md_t1 = ''transferId dDE=,filename YS5iaW4=''"

definition append_req :: "string option \<Rightarrow> bytes \<Rightarrow> patch_request" where
  "append_req off body = \<lparr>patch_path = Some [''u1''], patch_upload_offset = off, patch_body = body\<rparr>"

definition id_req :: id_request where
  "id_req = \<lparr>req_path = Some [''u1'']\<rparr>"


definition json_req :: id_request where
  "json_req = \<lparr>req_path = Some [''u1.json'']\<rparr>"

definition md_t9 :: string where
  "md_t9 = ''transferId dDk=,filename YS5iaW4=''"

definition s_created :: state where
  "s_created = fst (POST sample_decode s0 (create_req md_t1 ''10'' []) ''u1'' 500)"

definition s_at6 :: state where
  "s_at6 = fst (PATCH s_created (append_req (Some ''0'') [1, 2, 3, 4, 5, 6]) Appended)"

definition s_complete :: state where
  "s_complete = fst (PATCH s_at6 (append_req (Some ''6'') [7, 8, 9, 10]) Appended)"



definition meta_u1 :: "int \<Rightarrow> upload_meta" where
  "meta_u1 off = \<lparr>meta_id = ''u1'', meta_metadata = parseMetadata sample_decode (Some md_t1),
       meta_size = JNum 10, meta_offset = off, meta_creation_date = 500\<rparr>"

definition file_u1 :: "int \<Rightarrow> int \<Rightarrow> bool \<Rightarrow> file_row" where
  "file_u1 sz off done = \<lparr>file_transferId = ''t1'', file_filename = ''u1'',
       file_originalName = ''a.bin'', file_size = sz,
       file_mimeType = ''application/octet-stream'', file_uploadOffset = off,
       file_uploadComplete = done\<rparr>"

section \<open>Properties of the handlers\<close>

subsection \<open>Effect of each handler on one session\<close>

lemma POST_metas_other:
  "uuid \<noteq> uploadId \<Longrightarrow> metas (fst (POST decode s req uuid now)) uploadId = metas s uploadId"
  by (simp add: POST_def Let_def appendFileSync_def split: option.splits jsnum.splits)

lemma POST_files_other:
  "uuid \<noteq> uploadId \<Longrightarrow> files (fst (POST decode s req uuid now)) uploadId = files s uploadId"
  by (simp add: POST_def Let_def appendFileSync_def split: option.splits jsnum.splits)

lemma POST_offsets_nonneg:
  "offsets_nonneg s \<Longrightarrow> offsets_nonneg (fst (POST decode s req uuid now))"
  by (auto simp add: offsets_nonneg_def POST_def Let_def appendFileSync_def split: option.splits jsnum.splits if_splits)

lemma PATCH_accepted:
  assumes "uploadId_of (patch_path req) = Some uploadId"
    and "metas s uploadId = Some meta"
    and "parseInt (or_default (patch_upload_offset req) ''0'') = Num (meta_offset meta)"
    and "files s uploadId = Some f"
  shows "PATCH s req Appended =
    (s\<lparr>blobs := (if patch_body req = [] then blobs s
                  else (blobs s)(uploadId \<mapsto> blob_of s uploadId @ patch_body req)),
       metas := (metas s)(uploadId \<mapsto>
                  meta\<lparr>meta_offset := meta_offset meta + int (length (patch_body req))\<rparr>),
       files := (files s)(uploadId \<mapsto>
                  (if ge_json (meta_offset meta + int (length (patch_body req))) (meta_size meta)
                   then f\<lparr>file_uploadComplete := True,
                          file_uploadOffset := meta_offset meta + int (length (patch_body req)),
                          file_size := meta_offset meta + int (length (patch_body req))\<rparr>
                   else f\<lparr>file_uploadOffset := meta_offset meta + int (length (patch_body req))\<rparr>))\<rparr>,
     (respond 204 None)
       \<lparr>hdr_upload_offset := Some (meta_offset meta + int (length (patch_body req)))\<rparr>)"
  using assms by (simp add: PATCH_def Let_def appendFileSync_def)

lemma PATCH_metas:
  assumes "metas (fst (PATCH s req io)) uploadId = Some meta'"
  shows "\<exists>meta. metas s uploadId = Some meta \<and> meta_offset meta \<le> meta_offset meta'
            \<and> meta_size meta = meta_size meta'"
  using assms
  by (auto simp add: PATCH_def Let_def appendFileSync_def
      split: option.splits if_splits append_outcome.splits)

lemma PATCH_offsets_nonneg:
  "offsets_nonneg s \<Longrightarrow> offsets_nonneg (fst (PATCH s req io))"
  unfolding offsets_nonneg_def
proof (intro allI impI)
  fix uploadId meta'
  assume inv: "\<forall>uploadId meta. metas s uploadId = Some meta \<longrightarrow> 0 \<le> meta_offset meta"
    and "metas (fst (PATCH s req io)) uploadId = Some meta'"
  then obtain meta where "metas s uploadId = Some meta" "meta_offset meta \<le> meta_offset meta'"
    using PATCH_metas [of s req io uploadId meta'] by blast
  with inv show "0 \<le> meta_offset meta'" by force
qed

lemma PATCH_files:
  assumes "files (fst (PATCH s req io)) uploadId = Some f'"
  shows "\<exists>f. files s uploadId = Some f \<and> (file_uploadComplete f \<longrightarrow> file_uploadComplete f')"
  using assms
  by (auto simp add: PATCH_def Let_def appendFileSync_def
      split: option.splits if_splits append_outcome.splits)

lemma HEAD_state: "fst (HEAD s req) = s"
  by (simp add: HEAD_def split: option.splits)

lemma strip_json_append: "strip_json (uploadId @ ''.json'') = Some uploadId"
  by (simp add: strip_json_def)

lemma not_directory_json: "\<not> is_directory (uploadId @ ''.json'')"
  by (cases uploadId) (auto simp add: is_directory_def Cons_eq_append_conv)

text \<open>The state once a name that is not a directory is gone, whether it was there or not.\<close>

lemma unlink_if_exists:
  assumes "\<not> is_directory name"
  shows "(if existsSync s name then unlinkSync s name else Some s) =
           Some (s\<lparr>blobs := (blobs s)(name := None),
                   metas := (case strip_json name of
                               None \<Rightarrow> metas s
                             | Some uploadId \<Rightarrow> (metas s)(uploadId := None))\<rparr>)"
proof (cases "existsSync s name")
  case True
  with assms show ?thesis by (simp add: unlinkSync_def)
next
  case False
  with assms have b: "blobs s name = None"
    and m: "\<And>uploadId. strip_json name = Some uploadId \<Longrightarrow> metas s uploadId = None"
    by (auto simp add: existsSync_def split: if_splits option.splits)
  from b have "(blobs s)(name := None) = blobs s" by (simp add: fun_upd_idem)
  moreover from m have "(case strip_json name of None \<Rightarrow> metas s
                          | Some uploadId \<Rightarrow> (metas s)(uploadId := None)) = metas s"
    by (cases "strip_json name") (simp_all add: fun_upd_idem)
  ultimately show ?thesis using False by simp
qed

lemma unlink_directory:
  "is_directory name \<Longrightarrow> (if existsSync s name then unlinkSync s name else Some s) = None"
  by (simp add: existsSync_def unlinkSync_def)


lemma DELETE_directory:
  assumes "uploadId_of (req_path req) = Some uploadId" and "is_directory uploadId"
  shows "DELETE s req = (s, respond 500 None)"
  using assms by (simp add: DELETE_def Let_def unlink_directory del: if_split)

lemma DELETE_removed:
  assumes "uploadId_of (req_path req) = Some uploadId" and "\<not> is_directory uploadId"
  shows "DELETE s req =
    (s\<lparr>blobs := (blobs s)(uploadId := None, uploadId @ ''.json'' := None),
       metas := (case strip_json uploadId of
                   None \<Rightarrow> metas s
                 | Some other \<Rightarrow> (metas s)(other := None))(uploadId := None),
       files := (files s)(uploadId := None)\<rparr>,
     respond 204 None)"
  using assms
  by (simp add: DELETE_def Let_def unlink_if_exists not_directory_json strip_json_append
      del: if_split)

lemma DELETE_metas:
  "metas (fst (DELETE s req)) uploadId = Some meta' \<Longrightarrow> metas s uploadId = Some meta'"
proof (cases "uploadId_of (req_path req)")
  case None
  assume "metas (fst (DELETE s req)) uploadId = Some meta'"
  with None show ?thesis by (simp add: DELETE_def)
next
  case (Some target)
  assume a: "metas (fst (DELETE s req)) uploadId = Some meta'"
  show ?thesis
  proof (cases "is_directory target")
    case True
    with a Some show ?thesis by (simp add: DELETE_directory)
  next
    case False
    with a Some show ?thesis
      by (simp add: DELETE_removed split: option.splits if_splits)
  qed
qed

lemma DELETE_files:
  "files (fst (DELETE s req)) uploadId = Some f' \<Longrightarrow> files s uploadId = Some f'"
proof (cases "uploadId_of (req_path req)")
  case None
  assume "files (fst (DELETE s req)) uploadId = Some f'"
  with None show ?thesis by (simp add: DELETE_def)
next
  case (Some target)
  assume a: "files (fst (DELETE s req)) uploadId = Some f'"
  show ?thesis
  proof (cases "is_directory target")
    case True
    with a Some show ?thesis by (simp add: DELETE_directory)
  next
    case False
    with a Some show ?thesis
      by (simp add: DELETE_removed split: if_splits)
  qed
qed

lemma step_metas:
  assumes "metas (step decode s op) uploadId = Some meta'" and "\<not> creates op uploadId"
  shows "\<exists>meta. metas s uploadId = Some meta \<and> meta_offset meta \<le> meta_offset meta'
            \<and> meta_size meta = meta_size meta'"
proof (cases op)
  case (Create req uuid now)
  with assms show ?thesis by (simp add: POST_metas_other)
next
  case (Append req io)
  with assms(1) have "metas (fst (PATCH s req io)) uploadId = Some meta'" by simp
  then show ?thesis by (rule PATCH_metas)
next
  case (Status req)
  with assms show ?thesis by (simp add: HEAD_state)
next
  case (Cancel req)
  with assms(1) have "metas (fst (DELETE s req)) uploadId = Some meta'" by simp
  then have "metas s uploadId = Some meta'" by (rule DELETE_metas)
  then show ?thesis by simp
qed

lemma run_metas:
  assumes "metas (run decode s ops) uploadId = Some meta'"
    and "\<forall>op\<in>set ops. \<not> creates op uploadId"
  shows "\<exists>meta. metas s uploadId = Some meta \<and> meta_offset meta \<le> meta_offset meta'
            \<and> meta_size meta = meta_size meta'"
  using assms
proof (induction ops arbitrary: s)
  case Nil
  then show ?case by (simp add: run_def)
next
  case (Cons op ops)
  from Cons.prems have "metas (run decode (step decode s op) ops) uploadId = Some meta'"
    by (simp add: run_def)
  moreover from Cons.prems have "\<forall>op\<in>set ops. \<not> creates op uploadId" by simp
  ultimately obtain m1 where m1: "metas (step decode s op) uploadId = Some m1"
      "meta_offset m1 \<le> meta_offset meta'" "meta_size m1 = meta_size meta'"
    using Cons.IH [of "step decode s op"] by blast
  from Cons.prems have "\<not> creates op uploadId" by simp
  with m1(1) obtain m where "metas s uploadId = Some m" "meta_offset m \<le> meta_offset m1"
      "meta_size m = meta_size m1"
    using step_metas [of decode s op uploadId m1] by blast
  with m1 show ?case by auto
qed

lemma DELETE_offsets_nonneg:
  "offsets_nonneg s \<Longrightarrow> offsets_nonneg (fst (DELETE s req))"
  unfolding offsets_nonneg_def
proof (intro allI impI)
  fix uploadId meta
  assume inv: "\<forall>uploadId meta. metas s uploadId = Some meta \<longrightarrow> 0 \<le> meta_offset meta"
    and "metas (fst (DELETE s req)) uploadId = Some meta"
  then have "metas s uploadId = Some meta" using DELETE_metas [of s req uploadId meta] by simp
  with inv show "0 \<le> meta_offset meta" by blast
qed

lemma step_offsets_nonneg: "offsets_nonneg s \<Longrightarrow> offsets_nonneg (step decode s op)"
  by (cases op)
     (simp_all add: POST_offsets_nonneg PATCH_offsets_nonneg HEAD_state DELETE_offsets_nonneg)

lemma run_offsets_nonneg: "offsets_nonneg s \<Longrightarrow> offsets_nonneg (run decode s ops)"
  by (induction ops arbitrary: s) (simp_all add: run_def step_offsets_nonneg)

lemma step_files:
  assumes "files (step decode s op) uploadId = Some f'" and "\<not> creates op uploadId"
  shows "\<exists>f. files s uploadId = Some f \<and> (file_uploadComplete f \<longrightarrow> file_uploadComplete f')"
proof (cases op)
  case (Create req uuid now)
  with assms show ?thesis by (simp add: POST_files_other)
next
  case (Append req io)
  with assms(1) have "files (fst (PATCH s req io)) uploadId = Some f'" by simp
  then show ?thesis by (rule PATCH_files)
next
  case (Status req)
  with assms show ?thesis by (simp add: HEAD_state)
next
  case (Cancel req)
  with assms(1) have "files (fst (DELETE s req)) uploadId = Some f'" by simp
  then have "files s uploadId = Some f'" by (rule DELETE_files)
  then show ?thesis by simp
qed

lemma run_files:
  assumes "files (run decode s ops) uploadId = Some f'"
    and "\<forall>op\<in>set ops. \<not> creates op uploadId"
  shows "\<exists>f. files s uploadId = Some f \<and> (file_uploadComplete f \<longrightarrow> file_uploadComplete f')"
  using assms
proof (induction ops arbitrary: s)
  case Nil
  then show ?case by (simp add: run_def)
next
  case (Cons op ops)
  from Cons.prems have "files (run decode (step decode s op) ops) uploadId = Some f'"
    by (simp add: run_def)
  moreover from Cons.prems have "\<forall>op\<in>set ops. \<not> creates op uploadId" by simp
  ultimately obtain f1 where f1: "files (step decode s op) uploadId = Some f1"
      "file_uploadComplete f1 \<longrightarrow> file_uploadComplete f'"
    using Cons.IH [of "step decode s op"] by blast
  from Cons.prems have "\<not> creates op uploadId" by simp
  with f1(1) obtain f where "files s uploadId = Some f"
      "file_uploadComplete f \<longrightarrow> file_uploadComplete f1"
    using step_files [of decode s op uploadId f1] by blast
  with f1 show ?case by auto
qed

subsection \<open>Evaluating the sample scenario\<close>

lemmas parse_simps = parseInt_def isWhiteSpace_def digitValue_def or_default_def truthy_def
  parseMetadata_def trim_def sample_decode_def uploadId_of_def

lemma md_t1_transferId: "parseMetadata sample_decode (Some md_t1) ''transferId'' = Some ''t1''"
  by (simp add: parse_simps md_t1_def)

lemma md_t1_filename: "parseMetadata sample_decode (Some md_t1) ''filename'' = Some ''a.bin''"
  by (simp add: parse_simps md_t1_def)

lemma md_t1_filetype: "parseMetadata sample_decode (Some md_t1) ''filetype'' = None"
  by (simp add: parse_simps md_t1_def)

lemma POST_created:
  assumes "truthy (parseMetadata decode (post_upload_metadata req) ''transferId'') = Some transferId"
    and "transfers s transferId = Some transfer"
    and "parseInt (or_default (post_upload_length req) ''0'') = Num declaredLength"
    and "files s uuid = None"
  shows "POST decode s req uuid now =
    (s\<lparr>blobs := (blobs s)(uuid \<mapsto> post_body req),
       metas := (metas s)(uuid \<mapsto>
          \<lparr>meta_id = uuid, meta_metadata = parseMetadata decode (post_upload_metadata req),
           meta_size = JNum declaredLength, meta_offset = int (length (post_body req)),
           meta_creation_date = now\<rparr>),
       files := (files s)(uuid \<mapsto>
          \<lparr>file_transferId = transferId, file_filename = uuid,
           file_originalName =
             or_default (parseMetadata decode (post_upload_metadata req) ''filename'') ''unknown'',
           file_size = declaredLength,
           file_mimeType =
             or_default (parseMetadata decode (post_upload_metadata req) ''filetype'')
               ''application/octet-stream'',
           file_uploadOffset = 0, file_uploadComplete = False\<rparr>)\<rparr>,
     (respond 201 None)
       \<lparr>hdr_location := Some ((if includes_str (or_default (post_host req) ''localhost:3000'') ''localhost''
                                then ''http'' else ''https'') @ ''://'' @
                               or_default (post_host req) ''localhost:3000'' @ ''/api/tus/'' @ uuid),
        hdr_upload_offset := Some (int (length (post_body req)))\<rparr>)"
  using assms
  by (simp add: POST_def Let_def appendFileSync_def blob_of_def stringify_number_def)

lemma s_created_metas: "metas s_created ''u1'' = Some (meta_u1 0)"
  unfolding s_created_def
  by (subst POST_created [where transferId = "''t1''" and declaredLength = 10])
     (simp_all add: create_req_def md_t1_transferId truthy_def s0_def meta_u1_def
        parseInt_def isWhiteSpace_def digitValue_def or_default_def)

lemma s_created_files: "files s_created ''u1'' = Some (file_u1 10 0 False)"
  unfolding s_created_def
  by (subst POST_created [where transferId = "''t1''" and declaredLength = 10])
     (simp_all add: create_req_def md_t1_transferId md_t1_filename md_t1_filetype truthy_def
        s0_def file_u1_def parseInt_def isWhiteSpace_def digitValue_def or_default_def)

lemma s_created_blobs: "blobs s_created ''u1'' = Some []"
  unfolding s_created_def
  by (subst POST_created [where transferId = "''t1''" and declaredLength = 10])
     (simp_all add: create_req_def md_t1_transferId truthy_def s0_def
        parseInt_def isWhiteSpace_def digitValue_def or_default_def)

lemma append_req_id: "uploadId_of (patch_path (append_req off body)) = Some ''u1''"
  by (simp add: append_req_def uploadId_of_def)

lemma s_at6_metas: "metas s_at6 ''u1'' = Some (meta_u1 6)"
  unfolding s_at6_def
  by (subst PATCH_accepted [OF append_req_id s_created_metas _ s_created_files])
     (simp_all add: append_req_def meta_u1_def parseInt_def isWhiteSpace_def digitValue_def
        or_default_def)

lemma s_at6_files: "files s_at6 ''u1'' = Some (file_u1 10 6 False)"
  unfolding s_at6_def
  by (subst PATCH_accepted [OF append_req_id s_created_metas _ s_created_files])
     (simp_all add: append_req_def meta_u1_def file_u1_def ge_json_def parseInt_def
        isWhiteSpace_def digitValue_def or_default_def)

lemma s_at6_blobs: "blobs s_at6 ''u1'' = Some [1, 2, 3, 4, 5, 6]"
  unfolding s_at6_def
  by (subst PATCH_accepted [OF append_req_id s_created_metas _ s_created_files])
     (simp_all add: append_req_def meta_u1_def blob_of_def s_created_blobs parseInt_def
        isWhiteSpace_def digitValue_def or_default_def)

lemma s_complete_metas: "metas s_complete ''u1'' = Some (meta_u1 10)"
  unfolding s_complete_def
  by (subst PATCH_accepted [OF append_req_id s_at6_metas _ s_at6_files])
     (simp_all add: append_req_def meta_u1_def parseInt_def isWhiteSpace_def digitValue_def
        or_default_def)

lemma s_complete_files: "files s_complete ''u1'' = Some (file_u1 10 10 True)"
  unfolding s_complete_def
  by (subst PATCH_accepted [OF append_req_id s_at6_metas _ s_at6_files])
     (simp_all add: append_req_def meta_u1_def file_u1_def ge_json_def parseInt_def
        isWhiteSpace_def digitValue_def or_default_def)

lemma s_complete_blobs: "blobs s_complete ''u1'' = Some [1, 2, 3, 4, 5, 6, 7, 8, 9, 10]"
  unfolding s_complete_def
  by (subst PATCH_accepted [OF append_req_id s_at6_metas _ s_at6_files])
     (simp_all add: append_req_def meta_u1_def blob_of_def s_at6_blobs parseInt_def
        isWhiteSpace_def digitValue_def or_default_def)

lemmas num_simps = parseInt_def isWhiteSpace_def digitValue_def or_default_def

lemma create_req_t1:
  "truthy (parseMetadata sample_decode (post_upload_metadata (create_req md_t1 len body))
      ''transferId'') = Some ''t1''"
  by (simp add: create_req_def md_t1_transferId truthy_def)

lemma s0_transfer:
  "transfers s0 ''t1'' = Some \<lparr>transfer_expiresAt = 1000, transfer_status = ''pending''\<rparr>"
  by (simp add: s0_def)

lemma s0_files: "files s0 uuid = None"
  by (simp add: s0_def)

lemma run_scenario:
  "run sample_decode s_created
     [Append (append_req (Some ''0'') [1, 2, 3, 4, 5, 6]) Appended, Status id_req,
      Append (append_req (Some ''6'') [7, 8, 9, 10]) Appended] = s_complete"
  by (simp add: run_def HEAD_state s_at6_def s_complete_def)






lemma offsets_nonneg_s0: "offsets_nonneg s0"
  by (simp add: offsets_nonneg_def s0_def)

section \<open>Append: offset verification\<close>

text \<open>
  C1. An Append on an existing session whose claimed offset (the parsed
  \<open>Upload-Offset\<close> header) differs from the stored offset answers 409 "Offset mismatch",
  reports the stored offset in \<open>Upload-Offset\<close>, and leaves the whole persisted state
  (offset record, bytes, file row) as it was.
\<close>

theorem patch_offset_mismatch:
  assumes "uploadId_of (patch_path req) = Some uploadId"
    and "metas s uploadId = Some meta"
    and "parseInt (or_default (patch_upload_offset req) ''0'') \<noteq> Num (meta_offset meta)"
  shows "PATCH s req io =
           (s, (respond 409 (Some ''Offset mismatch''))
                 \<lparr>hdr_upload_offset := Some (meta_offset meta)\<rparr>)"
  using assms by (simp add: PATCH_def)

theorem patch_offset_mismatch_witness:
  "metas s_at6 ''u1'' = Some (meta_u1 6) \<and>
   parseInt ''3'' \<noteq> Num 6 \<and>
   PATCH s_at6 (append_req (Some ''3'') [4, 5, 6]) Appended =
     (s_at6, (respond 409 (Some ''Offset mismatch''))\<lparr>hdr_upload_offset := Some 6\<rparr>)"
  using patch_offset_mismatch [where req = "append_req (Some ''3'') [4, 5, 6]"
      and uploadId = "''u1''" and s = s_at6 and meta = "meta_u1 6" and io = Appended]
  by (simp add: append_req_id s_at6_metas) (simp add: append_req_def meta_u1_def num_simps)

section \<open>Offset bounds\<close>

text \<open>
  C2 (as the code has it). Over any sequence of operations that does not issue the
  session's id again, a session that is still there has an offset at least as large as
  before and the same declared size; offsets stay non-negative; and an Append at the right
  offset is accepted whatever its length: there is no check against the declared size, so
  the offset can pass it.
\<close>

theorem offset_monotone_not_bounded:
  "(metas (run decode s ops) uploadId = Some after \<and> (\<forall>op\<in>set ops. \<not> creates op uploadId)
      \<longrightarrow> (\<exists>meta. metas s uploadId = Some meta \<and> meta_offset meta \<le> meta_offset after
                  \<and> meta_size meta = meta_size after))
   \<and> (offsets_nonneg s \<longrightarrow> offsets_nonneg (run decode s ops))
   \<and> (uploadId_of (patch_path req) = Some uploadId \<and> metas s uploadId = Some before
        \<and> parseInt (or_default (patch_upload_offset req) ''0'') = Num (meta_offset before)
        \<and> files s uploadId = Some f
      \<longrightarrow> snd (PATCH s req Appended) =
            (respond 204 None)
              \<lparr>hdr_upload_offset := Some (meta_offset before + int (length (patch_body req)))\<rparr>
          \<and> metas (fst (PATCH s req Appended)) uploadId =
              Some (before\<lparr>meta_offset := meta_offset before + int (length (patch_body req))\<rparr>))"
proof (intro conjI impI)
  assume "metas (run decode s ops) uploadId = Some after \<and> (\<forall>op\<in>set ops. \<not> creates op uploadId)"
  then show "\<exists>meta. metas s uploadId = Some meta \<and> meta_offset meta \<le> meta_offset after
                  \<and> meta_size meta = meta_size after"
    using run_metas [of decode s ops uploadId after] by blast
next
  assume "offsets_nonneg s"
  then show "offsets_nonneg (run decode s ops)" by (rule run_offsets_nonneg)
next
  assume a: "uploadId_of (patch_path req) = Some uploadId \<and> metas s uploadId = Some before
        \<and> parseInt (or_default (patch_upload_offset req) ''0'') = Num (meta_offset before)
        \<and> files s uploadId = Some f"
  then have h: "uploadId_of (patch_path req) = Some uploadId" "metas s uploadId = Some before"
      "parseInt (or_default (patch_upload_offset req) ''0'') = Num (meta_offset before)"
      "files s uploadId = Some f"
    by simp_all
  note eq = PATCH_accepted [OF h]
  show "snd (PATCH s req Appended) =
            (respond 204 None)
              \<lparr>hdr_upload_offset := Some (meta_offset before + int (length (patch_body req)))\<rparr>"
    by (simp add: eq)
  show "metas (fst (PATCH s req Appended)) uploadId =
              Some (before\<lparr>meta_offset := meta_offset before + int (length (patch_body req))\<rparr>)"
    by (simp add: eq)
qed

theorem offset_monotone_not_bounded_witness:
  "metas (run sample_decode s_created
       [Append (append_req (Some ''0'') [1, 2, 3, 4, 5, 6]) Appended, Status id_req,
        Append (append_req (Some ''6'') [7, 8, 9, 10]) Appended]) ''u1'' = Some (meta_u1 10)
   \<and> metas s_created ''u1'' = Some (meta_u1 0)
   \<and> meta_offset (meta_u1 0) \<le> meta_offset (meta_u1 10)
   \<and> offsets_nonneg s0
   \<and> offsets_nonneg (run sample_decode s0
         [Create (create_req md_t1 ''10'' []) ''u1'' 500,
          Append (append_req (Some ''0'') [1, 2, 3, 4, 5, 6]) Appended])
   \<and> snd (PATCH s_at6 (append_req (Some ''6'') [7, 8, 9, 10, 11, 12]) Appended) =
        (respond 204 None)\<lparr>hdr_upload_offset := Some 12\<rparr>
   \<and> metas (fst (PATCH s_at6 (append_req (Some ''6'') [7, 8, 9, 10, 11, 12]) Appended)) ''u1'' =
        Some (meta_u1 12)"
proof -
  let ?ops1 = "[Append (append_req (Some ''0'') [1, 2, 3, 4, 5, 6]) Appended, Status id_req,
        Append (append_req (Some ''6'') [7, 8, 9, 10]) Appended]"
  let ?ops2 = "[Create (create_req md_t1 ''10'' []) ''u1'' 500,
          Append (append_req (Some ''0'') [1, 2, 3, 4, 5, 6]) Appended]"
  let ?req = "append_req (Some ''6'') [7, 8, 9, 10, 11, 12]"
  have nocreate: "\<forall>op\<in>set ?ops1. \<not> creates op ''u1''" by simp
  have claimed: "parseInt (or_default (patch_upload_offset ?req) ''0'') = Num (meta_offset (meta_u1 6))"
    by (simp add: append_req_def meta_u1_def num_simps)
  have len: "meta_offset (meta_u1 6) + int (length (patch_body ?req)) = 12"
    by (simp add: append_req_def meta_u1_def)
  have upd: "(meta_u1 6)\<lparr>meta_offset := 12\<rparr> = meta_u1 12" by (simp add: meta_u1_def)
  have a: "metas (run sample_decode s_created ?ops1) ''u1'' = Some (meta_u1 10)"
    by (simp only: run_scenario s_complete_metas)
  note inst = offset_monotone_not_bounded [where decode = sample_decode and uploadId = "''u1''"
      and after = "meta_u1 10" and before = "meta_u1 6" and f = "file_u1 10 6 False" and req = ?req]
  from inst [of s_created ?ops1] a nocreate
  have p1: "metas s_created ''u1'' = Some (meta_u1 0) \<and>
            meta_offset (meta_u1 0) \<le> meta_offset (meta_u1 10)"
    by (simp add: s_created_metas meta_u1_def)
  from inst [of s0 ?ops2] offsets_nonneg_s0
  have p2: "offsets_nonneg (run sample_decode s0 ?ops2)" by blast
  from inst [of s_at6 "[]"] append_req_id [of "Some ''6''" "[7, 8, 9, 10, 11, 12]"]
    s_at6_metas s_at6_files claimed
  have p3: "snd (PATCH s_at6 ?req Appended) = (respond 204 None)\<lparr>hdr_upload_offset := Some 12\<rparr>
     \<and> metas (fst (PATCH s_at6 ?req Appended)) ''u1'' = Some (meta_u1 12)"
    by (simp only: len upd simp_thms)
  from a p1 p2 p3 offsets_nonneg_s0 show ?thesis by blast
qed

text \<open>
  The claim as the spec words it (an Append that would pass the declared size is rejected
  with no mutation, so the offset never exceeds the declared size) fails on the spec's own
  scenario: at offset 6 of 10, six more bytes are accepted and the offset becomes 12.
\<close>

theorem offset_passes_declared_size:
  "resp_status (snd (PATCH s_at6 (append_req (Some ''6'') [7, 8, 9, 10, 11, 12]) Appended)) = 204
   \<and> map_option meta_offset
        (metas (fst (PATCH s_at6 (append_req (Some ''6'') [7, 8, 9, 10, 11, 12]) Appended)) ''u1'')
       = Some 12
   \<and> map_option meta_size
        (metas (fst (PATCH s_at6 (append_req (Some ''6'') [7, 8, 9, 10, 11, 12]) Appended)) ''u1'')
       = Some (JNum 10)"
  by (subst (1 2 3) PATCH_accepted [OF append_req_id s_at6_metas _ s_at6_files])
     (simp_all add: append_req_def meta_u1_def respond_def num_simps)

section \<open>Completion flag\<close>

text \<open>
  C3 (as the code has it). The completion flag is the column \<open>uploadComplete\<close> of the
  file row. An accepted Append leaves it true exactly when the new offset is at least the
  declared size or it was true before; and over any sequence of operations that does not
  issue the id again, a file row that is still there and was complete is still complete:
  the flag never reverts.
\<close>

theorem completion_flag_set_by_append_and_kept:
  "(uploadId_of (patch_path req) = Some uploadId \<and> metas s uploadId = Some meta
      \<and> parseInt (or_default (patch_upload_offset req) ''0'') = Num (meta_offset meta)
      \<and> files s uploadId = Some f
    \<longrightarrow> map_option file_uploadComplete (files (fst (PATCH s req Appended)) uploadId) =
          Some (ge_json (meta_offset meta + int (length (patch_body req))) (meta_size meta)
                \<or> file_uploadComplete f))
   \<and> (files (run decode s ops) uploadId = Some g \<and> (\<forall>op\<in>set ops. \<not> creates op uploadId)
    \<longrightarrow> (\<exists>f. files s uploadId = Some f \<and> (file_uploadComplete f \<longrightarrow> file_uploadComplete g)))"
proof (intro conjI impI)
  assume "uploadId_of (patch_path req) = Some uploadId \<and> metas s uploadId = Some meta
      \<and> parseInt (or_default (patch_upload_offset req) ''0'') = Num (meta_offset meta)
      \<and> files s uploadId = Some f"
  then have h: "uploadId_of (patch_path req) = Some uploadId" "metas s uploadId = Some meta"
      "parseInt (or_default (patch_upload_offset req) ''0'') = Num (meta_offset meta)"
      "files s uploadId = Some f"
    by simp_all
  show "map_option file_uploadComplete (files (fst (PATCH s req Appended)) uploadId) =
          Some (ge_json (meta_offset meta + int (length (patch_body req))) (meta_size meta)
                \<or> file_uploadComplete f)"
    by (simp add: PATCH_accepted [OF h])
next
  assume "files (run decode s ops) uploadId = Some g \<and> (\<forall>op\<in>set ops. \<not> creates op uploadId)"
  then show "\<exists>f. files s uploadId = Some f \<and> (file_uploadComplete f \<longrightarrow> file_uploadComplete g)"
    using run_files [of decode s ops uploadId g] by blast
qed

theorem completion_flag_set_by_append_and_kept_witness:
  "files s_at6 ''u1'' = Some (file_u1 10 6 False)
   \<and> map_option file_uploadComplete
        (files (fst (PATCH s_at6 (append_req (Some ''6'') [7, 8, 9, 10]) Appended)) ''u1'')
       = Some True
   \<and> map_option file_uploadComplete
        (files (fst (PATCH s_created (append_req (Some ''0'') [1, 2, 3]) Appended)) ''u1'')
       = Some False
   \<and> files s_complete ''u1'' = Some (file_u1 10 10 True)
   \<and> map_option file_uploadComplete
        (files (run sample_decode s_complete
           [Append (append_req (Some ''10'') []) Appended, Status id_req]) ''u1'') = Some True"
proof -
  let ?r1 = "append_req (Some ''6'') [7, 8, 9, 10]"
  let ?r2 = "append_req (Some ''0'') [1, 2, 3]"
  let ?r3 = "append_req (Some ''10'') []"
  let ?ops = "[Append ?r3 Appended, Status id_req]"
  note inst = completion_flag_set_by_append_and_kept [where decode = sample_decode
      and uploadId = "''u1''"]
  have c1: "parseInt (or_default (patch_upload_offset ?r1) ''0'') = Num (meta_offset (meta_u1 6))"
    by (simp add: append_req_def meta_u1_def num_simps)
  have c2: "parseInt (or_default (patch_upload_offset ?r2) ''0'') = Num (meta_offset (meta_u1 0))"
    by (simp add: append_req_def meta_u1_def num_simps)
  have c3: "parseInt (or_default (patch_upload_offset ?r3) ''0'') = Num (meta_offset (meta_u1 10))"
    by (simp add: append_req_def meta_u1_def num_simps)
  from inst [of ?r1 s_at6 "meta_u1 6" "file_u1 10 6 False" "[]"]
    append_req_id [of "Some ''6''" "[7, 8, 9, 10]"] s_at6_metas s_at6_files c1
  have p1: "map_option file_uploadComplete (files (fst (PATCH s_at6 ?r1 Appended)) ''u1'') = Some True"
    by (simp add: append_req_def meta_u1_def file_u1_def ge_json_def)
  from inst [of ?r2 s_created "meta_u1 0" "file_u1 10 0 False" "[]"]
    append_req_id [of "Some ''0''" "[1, 2, 3]"] s_created_metas s_created_files c2
  have p2: "map_option file_uploadComplete (files (fst (PATCH s_created ?r2 Appended)) ''u1'') = Some False"
    by (simp add: append_req_def meta_u1_def file_u1_def ge_json_def)
  note st = PATCH_accepted [OF append_req_id s_complete_metas c3 s_complete_files]
  obtain g where g: "files (run sample_decode s_complete ?ops) ''u1'' = Some g"
    by (simp add: run_def HEAD_state st)
  have nocreate: "\<forall>op\<in>set ?ops. \<not> creates op ''u1''" by simp
  from inst [of _ s_complete _ _ ?ops g] g nocreate s_complete_files
  have "file_uploadComplete g" by (simp add: file_u1_def)
  with g have p3: "map_option file_uploadComplete
        (files (run sample_decode s_complete ?ops) ''u1'') = Some True"
    by simp
  from p1 p2 p3 s_at6_files s_complete_files show ?thesis by blast
qed

text \<open>
  "Complete if and only if the offset equals the declared size" fails: the test is
  \<open>newOffset >= meta.size\<close>, so five bytes at offset 6 of 10 complete the upload at
  offset 11.
\<close>

theorem complete_with_offset_beyond_size:
  "map_option file_uploadComplete
     (files (fst (PATCH s_at6 (append_req (Some ''6'') [7, 8, 9, 10, 11]) Appended)) ''u1'')
     = Some True
   \<and> map_option meta_offset
       (metas (fst (PATCH s_at6 (append_req (Some ''6'') [7, 8, 9, 10, 11]) Appended)) ''u1'')
     = Some 11
   \<and> map_option meta_size
       (metas (fst (PATCH s_at6 (append_req (Some ''6'') [7, 8, 9, 10, 11]) Appended)) ''u1'')
     = Some (JNum 10)"
  by (subst (1 2 3) PATCH_accepted [OF append_req_id s_at6_metas _ s_at6_files])
     (simp_all add: append_req_def meta_u1_def file_u1_def ge_json_def num_simps)

section \<open>Append to a complete session\<close>

text \<open>
  C4 (as the code has it). PATCH has no test for completeness. Against a session whose
  offset equals its declared size, an Append with another claimed offset answers 409 with
  no mutation; an Append claiming the current offset is accepted with 204: its bytes are
  appended, the offset advances by their number (the declared size in the offset record
  stays), and the file row stays complete.
\<close>

theorem patch_on_complete_session:
  assumes "uploadId_of (patch_path req) = Some uploadId"
    and "metas s uploadId = Some meta"
    and "meta_size meta = JNum (meta_offset meta)"
    and "files s uploadId = Some f"
  shows "(parseInt (or_default (patch_upload_offset req) ''0'') \<noteq> Num (meta_offset meta)
          \<longrightarrow> PATCH s req io =
                (s, (respond 409 (Some ''Offset mismatch''))
                      \<lparr>hdr_upload_offset := Some (meta_offset meta)\<rparr>))
       \<and> (parseInt (or_default (patch_upload_offset req) ''0'') = Num (meta_offset meta)
          \<longrightarrow> snd (PATCH s req Appended) =
                (respond 204 None)
                  \<lparr>hdr_upload_offset := Some (meta_offset meta + int (length (patch_body req)))\<rparr>
              \<and> blobs (fst (PATCH s req Appended)) =
                  (if patch_body req = [] then blobs s
                   else (blobs s)(uploadId \<mapsto> blob_of s uploadId @ patch_body req))
              \<and> metas (fst (PATCH s req Appended)) uploadId =
                  Some (meta\<lparr>meta_offset := meta_offset meta + int (length (patch_body req))\<rparr>)
              \<and> map_option file_uploadComplete (files (fst (PATCH s req Appended)) uploadId) =
                  Some True)"
proof (intro conjI impI)
  assume "parseInt (or_default (patch_upload_offset req) ''0'') \<noteq> Num (meta_offset meta)"
  with assms(1,2) show "PATCH s req io =
                (s, (respond 409 (Some ''Offset mismatch''))
                      \<lparr>hdr_upload_offset := Some (meta_offset meta)\<rparr>)"
    by (simp add: PATCH_def)
next
  assume c: "parseInt (or_default (patch_upload_offset req) ''0'') = Num (meta_offset meta)"
  note eq = PATCH_accepted [OF assms(1,2) c assms(4)]
  show "snd (PATCH s req Appended) =
                (respond 204 None)
                  \<lparr>hdr_upload_offset := Some (meta_offset meta + int (length (patch_body req)))\<rparr>"
    by (simp add: eq)
  show "blobs (fst (PATCH s req Appended)) =
                  (if patch_body req = [] then blobs s
                   else (blobs s)(uploadId \<mapsto> blob_of s uploadId @ patch_body req))"
    by (simp add: eq)
  show "metas (fst (PATCH s req Appended)) uploadId =
                  Some (meta\<lparr>meta_offset := meta_offset meta + int (length (patch_body req))\<rparr>)"
    by (simp add: eq)
  show "map_option file_uploadComplete (files (fst (PATCH s req Appended)) uploadId) = Some True"
    using assms(3) by (simp add: eq ge_json_def)
qed

theorem patch_on_complete_session_witness:
  "metas s_complete ''u1'' = Some (meta_u1 10)
   \<and> meta_size (meta_u1 10) = JNum (meta_offset (meta_u1 10))
   \<and> PATCH s_complete (append_req (Some ''6'') [7, 8, 9, 10]) Appended =
       (s_complete, (respond 409 (Some ''Offset mismatch''))\<lparr>hdr_upload_offset := Some 10\<rparr>)
   \<and> snd (PATCH s_complete (append_req (Some ''10'') [11, 12]) Appended) =
       (respond 204 None)\<lparr>hdr_upload_offset := Some 12\<rparr>
   \<and> blobs (fst (PATCH s_complete (append_req (Some ''10'') [11, 12]) Appended)) ''u1'' =
       Some [1, 2, 3, 4, 5, 6, 7, 8, 9, 10, 11, 12]
   \<and> metas (fst (PATCH s_complete (append_req (Some ''10'') [11, 12]) Appended)) ''u1'' =
       Some (meta_u1 12)"
proof -
  let ?late = "append_req (Some ''6'') [7, 8, 9, 10]"
  let ?more = "append_req (Some ''10'') [11, 12]"
  have sz: "meta_size (meta_u1 10) = JNum (meta_offset (meta_u1 10))"
    by (simp add: meta_u1_def)
  note inst = patch_on_complete_session [OF append_req_id s_complete_metas sz s_complete_files]
  have c1: "parseInt (or_default (patch_upload_offset ?late) ''0'') \<noteq> Num (meta_offset (meta_u1 10))"
    by (simp add: append_req_def meta_u1_def num_simps)
  have c2: "parseInt (or_default (patch_upload_offset ?more) ''0'') = Num (meta_offset (meta_u1 10))"
    by (simp add: append_req_def meta_u1_def num_simps)
  from inst [of "Some ''6''" "[7, 8, 9, 10]" Appended] c1
  have p1: "PATCH s_complete ?late Appended =
       (s_complete, (respond 409 (Some ''Offset mismatch''))\<lparr>hdr_upload_offset := Some 10\<rparr>)"
    by (simp add: meta_u1_def)
  from inst [of "Some ''10''" "[11, 12]" Appended] c2
  have p2: "snd (PATCH s_complete ?more Appended) = (respond 204 None)\<lparr>hdr_upload_offset := Some 12\<rparr>
     \<and> blobs (fst (PATCH s_complete ?more Appended)) ''u1'' =
         Some [1, 2, 3, 4, 5, 6, 7, 8, 9, 10, 11, 12]
     \<and> metas (fst (PATCH s_complete ?more Appended)) ''u1'' = Some (meta_u1 12)"
    by (simp add: append_req_def meta_u1_def blob_of_def s_complete_blobs)
  from p1 p2 sz s_complete_metas show ?thesis by blast
qed

text \<open>
  The claim as the spec words it (Conflict, no mutation) fails on the completed scenario:
  two more bytes at offset 10 of 10 are accepted and stored.
\<close>

theorem append_to_complete_session_accepted:
  "map_option file_uploadComplete (files s_complete ''u1'') = Some True
   \<and> map_option meta_offset (metas s_complete ''u1'') = Some 10
   \<and> map_option meta_size (metas s_complete ''u1'') = Some (JNum 10)
   \<and> resp_status (snd (PATCH s_complete (append_req (Some ''10'') [11, 12]) Appended)) = 204
   \<and> map_option meta_offset
        (metas (fst (PATCH s_complete (append_req (Some ''10'') [11, 12]) Appended)) ''u1'')
       = Some 12
   \<and> blobs (fst (PATCH s_complete (append_req (Some ''10'') [11, 12]) Appended)) ''u1''
       = Some [1, 2, 3, 4, 5, 6, 7, 8, 9, 10, 11, 12]"
  by (subst (1 2 3) PATCH_accepted [OF append_req_id s_complete_metas _ s_complete_files])
     (simp_all add: append_req_def meta_u1_def file_u1_def respond_def blob_of_def
        s_complete_metas s_complete_files s_complete_blobs num_simps)

section \<open>Create\<close>

text \<open>
  C5. A Create whose declared size exceeds the ceiling should fail with no session created.
  POST never compares \<open>uploadLength\<close> with \<open>MAX_SIZE\<close>, which it only advertises as
  \<open>Tus-Max-Size\<close>: a declared size of 100 GiB plus one byte is answered 201 and the
  session, its byte file and its file row are created.
\<close>

theorem post_beyond_max_size_accepted:
  "tus_max_size getCorsHeaders = 107374182400
   \<and> snd (POST sample_decode s0 (create_req md_t1 ''107374182401'' []) ''u2'' 500) =
       (respond 201 None)
         \<lparr>hdr_location := Some ''http://localhost:3000/api/tus/u2'', hdr_upload_offset := Some 0\<rparr>
   \<and> map_option meta_size
        (metas (fst (POST sample_decode s0 (create_req md_t1 ''107374182401'' []) ''u2'' 500)) ''u2'')
       = Some (JNum 107374182401)
   \<and> blobs (fst (POST sample_decode s0 (create_req md_t1 ''107374182401'' []) ''u2'' 500)) ''u2''
       = Some []
   \<and> map_option file_size
        (files (fst (POST sample_decode s0 (create_req md_t1 ''107374182401'' []) ''u2'' 500)) ''u2'')
       = Some 107374182401"
proof -
  have len: "parseInt (or_default (post_upload_length (create_req md_t1 ''107374182401'' [])) ''0'')
      = Num 107374182401"
    by (simp add: create_req_def num_simps)
  note eq = POST_created [OF create_req_t1 s0_transfer len s0_files]
  show ?thesis
    by (simp add: eq getCorsHeaders_def MAX_SIZE_def) (simp add: create_req_def or_default_def)
qed

text \<open>
  C6. A Create carrying the whole file as its initial payload appends the bytes and
  reports their number as the offset reached, but it does not run the completion logic of
  PATCH: the file row keeps \<open>uploadComplete = false\<close> and \<open>uploadOffset = 0\<close> although the
  offset record has reached the declared size.
\<close>

theorem post_with_full_payload_not_completed:
  "snd (POST sample_decode s0 (create_req md_t1 ''4'' [1, 2, 3, 4]) ''u3'' 500) =
       (respond 201 None)
         \<lparr>hdr_location := Some ''http://localhost:3000/api/tus/u3'', hdr_upload_offset := Some 4\<rparr>
   \<and> blobs (fst (POST sample_decode s0 (create_req md_t1 ''4'' [1, 2, 3, 4]) ''u3'' 500)) ''u3''
       = Some [1, 2, 3, 4]
   \<and> map_option meta_offset
        (metas (fst (POST sample_decode s0 (create_req md_t1 ''4'' [1, 2, 3, 4]) ''u3'' 500)) ''u3'')
       = Some 4
   \<and> map_option meta_size
        (metas (fst (POST sample_decode s0 (create_req md_t1 ''4'' [1, 2, 3, 4]) ''u3'' 500)) ''u3'')
       = Some (JNum 4)
   \<and> map_option file_uploadComplete
        (files (fst (POST sample_decode s0 (create_req md_t1 ''4'' [1, 2, 3, 4]) ''u3'' 500)) ''u3'')
       = Some False
   \<and> map_option file_uploadOffset
        (files (fst (POST sample_decode s0 (create_req md_t1 ''4'' [1, 2, 3, 4]) ''u3'' 500)) ''u3'')
       = Some 0"
proof -
  have len: "parseInt (or_default (post_upload_length (create_req md_t1 ''4'' [1, 2, 3, 4])) ''0'')
      = Num 4"
    by (simp add: create_req_def num_simps)
  note eq = POST_created [OF create_req_t1 s0_transfer len s0_files]
  show ?thesis
    by (simp add: eq) (simp add: create_req_def or_default_def)
qed

text \<open>
  C7 (as the code has it). A Create whose metadata names a transfer that has no row is
  answered 404 "Transfer not found" and the persisted state is unchanged. The handler looks
  the transfer up by id only.
\<close>

theorem post_unknown_transfer:
  assumes "truthy (parseMetadata decode (post_upload_metadata req) ''transferId'') = Some transferId"
    and "transfers s transferId = None"
  shows "POST decode s req uuid now = (s, respond 404 (Some ''Transfer not found''))"
  using assms by (simp add: POST_def Let_def)

theorem post_unknown_transfer_witness:
  "truthy (parseMetadata sample_decode (post_upload_metadata (create_req md_t9 ''10'' [1, 2]))
      ''transferId'') = Some ''t9''
   \<and> transfers s0 ''t9'' = None
   \<and> POST sample_decode s0 (create_req md_t9 ''10'' [1, 2]) ''u5'' 500 =
       (s0, respond 404 (Some ''Transfer not found''))"
proof -
  have a: "truthy (parseMetadata sample_decode (post_upload_metadata (create_req md_t9 ''10'' [1, 2]))
      ''transferId'') = Some ''t9''"
    by (simp add: create_req_def md_t9_def parse_simps)
  have b: "transfers s0 ''t9'' = None" by (simp add: s0_def)
  from post_unknown_transfer [OF a b] a b show ?thesis by blast
qed

text \<open>
  The claim as the spec words it also rejects a transfer that has expired; POST does not
  read \<open>expiresAt\<close>: at time 2000 a Create for the transfer that expired at 1000 is
  answered 201 and the session is created.
\<close>

theorem post_to_expired_transfer_accepted:
  "map_option transfer_expiresAt (transfers s0 ''t1'') = Some 1000
   \<and> (1000 :: int) < 2000
   \<and> snd (POST sample_decode s0 (create_req md_t1 ''10'' []) ''u4'' 2000) =
       (respond 201 None)
         \<lparr>hdr_location := Some ''http://localhost:3000/api/tus/u4'', hdr_upload_offset := Some 0\<rparr>
   \<and> map_option meta_creation_date
        (metas (fst (POST sample_decode s0 (create_req md_t1 ''10'' []) ''u4'' 2000)) ''u4'')
       = Some 2000
   \<and> map_option file_transferId
        (files (fst (POST sample_decode s0 (create_req md_t1 ''10'' []) ''u4'' 2000)) ''u4'')
       = Some ''t1''"
proof -
  have len: "parseInt (or_default (post_upload_length (create_req md_t1 ''10'' [])) ''0'') = Num 10"
    by (simp add: create_req_def num_simps)
  note eq = POST_created [OF create_req_t1 s0_transfer len s0_files]
  show ?thesis
    by (simp add: eq s0_transfer) (simp add: create_req_def or_default_def)
qed

section \<open>Append: storage failure\<close>

text \<open>
  C8 (as the code has it). When \<open>appendFileSync\<close> throws during an Append that passed the
  offset check, the answer is 500 and the offset records, the file rows and the transfers
  are as before, so the same Append sent again is accepted with 204 and advances the offset
  by the length of the chunk. The byte file keeps the \<open>k\<close> bytes written before the
  failure; the whole state is unchanged when none was written.
\<close>

theorem patch_append_failure_keeps_offset:
  assumes "uploadId_of (patch_path req) = Some uploadId"
    and "metas s uploadId = Some meta"
    and "parseInt (or_default (patch_upload_offset req) ''0'') = Num (meta_offset meta)"
    and "patch_body req \<noteq> []"
    and "files s uploadId = Some f"
  shows "snd (PATCH s req (AppendFailed k)) = respond 500 (Some ''Internal server error'')
       \<and> metas (fst (PATCH s req (AppendFailed k))) = metas s
       \<and> files (fst (PATCH s req (AppendFailed k))) = files s
       \<and> transfers (fst (PATCH s req (AppendFailed k))) = transfers s
       \<and> blobs (fst (PATCH s req (AppendFailed k))) =
           (blobs s)(uploadId \<mapsto> blob_of s uploadId @ take k (patch_body req))
       \<and> (blobs s uploadId = Some b \<longrightarrow> fst (PATCH s req (AppendFailed 0)) = s)
       \<and> snd (PATCH (fst (PATCH s req (AppendFailed k))) req Appended) =
           (respond 204 None)
             \<lparr>hdr_upload_offset := Some (meta_offset meta + int (length (patch_body req)))\<rparr>
       \<and> metas (fst (PATCH (fst (PATCH s req (AppendFailed k))) req Appended)) uploadId =
           Some (meta\<lparr>meta_offset := meta_offset meta + int (length (patch_body req))\<rparr>)"
proof -
  let ?s = "appendFileSync s uploadId (take k (patch_body req))"
  have failed: "PATCH s req (AppendFailed j) =
      (appendFileSync s uploadId (take j (patch_body req)),
       respond 500 (Some ''Internal server error''))" for j
    using assms(1-4) by (simp add: PATCH_def Let_def)
  have m: "metas ?s uploadId = Some meta" using assms(2) by (simp add: appendFileSync_def)
  have fl: "files ?s uploadId = Some f" using assms(5) by (simp add: appendFileSync_def)
  note retry = PATCH_accepted [OF assms(1) m assms(3) fl]
  have r1: "snd (PATCH s req (AppendFailed k)) = respond 500 (Some ''Internal server error'')"
    by (simp add: failed)
  have r2: "metas (fst (PATCH s req (AppendFailed k))) = metas s"
    by (simp add: failed appendFileSync_def)
  have r3: "files (fst (PATCH s req (AppendFailed k))) = files s"
    by (simp add: failed appendFileSync_def)
  have r4: "transfers (fst (PATCH s req (AppendFailed k))) = transfers s"
    by (simp add: failed appendFileSync_def)
  have r5: "blobs (fst (PATCH s req (AppendFailed k))) =
           (blobs s)(uploadId \<mapsto> blob_of s uploadId @ take k (patch_body req))"
    by (simp add: failed appendFileSync_def)
  have r6: "snd (PATCH (fst (PATCH s req (AppendFailed k))) req Appended) =
           (respond 204 None)
             \<lparr>hdr_upload_offset := Some (meta_offset meta + int (length (patch_body req)))\<rparr>"
    by (simp add: failed retry)
  have r7: "metas (fst (PATCH (fst (PATCH s req (AppendFailed k))) req Appended)) uploadId =
           Some (meta\<lparr>meta_offset := meta_offset meta + int (length (patch_body req))\<rparr>)"
    by (simp add: failed retry)
  show ?thesis
  proof (intro conjI impI)
    assume "blobs s uploadId = Some b"
    then show "fst (PATCH s req (AppendFailed 0)) = s"
      by (simp add: failed appendFileSync_def blob_of_def fun_upd_idem)
  qed (rule r1 r2 r3 r4 r5 r6 r7)+
qed

theorem patch_append_failure_keeps_offset_witness:
  "metas s_at6 ''u1'' = Some (meta_u1 6)
   \<and> blobs s_at6 ''u1'' = Some [1, 2, 3, 4, 5, 6]
   \<and> snd (PATCH s_at6 (append_req (Some ''6'') [7, 8, 9, 10]) (AppendFailed 2)) =
        respond 500 (Some ''Internal server error'')
   \<and> metas (fst (PATCH s_at6 (append_req (Some ''6'') [7, 8, 9, 10]) (AppendFailed 2))) ''u1'' =
        Some (meta_u1 6)
   \<and> blobs (fst (PATCH s_at6 (append_req (Some ''6'') [7, 8, 9, 10]) (AppendFailed 2))) ''u1'' =
        Some [1, 2, 3, 4, 5, 6, 7, 8]
   \<and> fst (PATCH s_at6 (append_req (Some ''6'') [7, 8, 9, 10]) (AppendFailed 0)) = s_at6
   \<and> snd (PATCH (fst (PATCH s_at6 (append_req (Some ''6'') [7, 8, 9, 10]) (AppendFailed 2)))
          (append_req (Some ''6'') [7, 8, 9, 10]) Appended) =
        (respond 204 None)\<lparr>hdr_upload_offset := Some 10\<rparr>"
proof -
  let ?req = "append_req (Some ''6'') [7, 8, 9, 10]"
  have c: "parseInt (or_default (patch_upload_offset ?req) ''0'') = Num (meta_offset (meta_u1 6))"
    by (simp add: append_req_def meta_u1_def num_simps)
  have b: "patch_body ?req \<noteq> []" by (simp add: append_req_def)
  have len: "meta_offset (meta_u1 6) + int (length (patch_body ?req)) = 10"
    by (simp add: append_req_def meta_u1_def)
  have prefix: "blob_of s_at6 ''u1'' @ take 2 (patch_body ?req) = [1, 2, 3, 4, 5, 6, 7, 8]"
    by (simp add: blob_of_def s_at6_blobs append_req_def)
  from patch_append_failure_keeps_offset [OF append_req_id s_at6_metas c b s_at6_files,
      of 2 "[1, 2, 3, 4, 5, 6]"]
  show ?thesis by (simp add: s_at6_metas s_at6_blobs len prefix)
qed

text \<open>
  "State unchanged on error" fails when the write stops part way: two of four bytes stay in
  the byte file after the 500, the state differs from the one before, and the accepted
  retry stores the chunk after them.
\<close>

theorem failed_append_leaves_bytes:
  "blobs s_at6 ''u1'' = Some [1, 2, 3, 4, 5, 6]
   \<and> snd (PATCH s_at6 (append_req (Some ''6'') [7, 8, 9, 10]) (AppendFailed 2)) =
        respond 500 (Some ''Internal server error'')
   \<and> blobs (fst (PATCH s_at6 (append_req (Some ''6'') [7, 8, 9, 10]) (AppendFailed 2))) ''u1'' =
        Some [1, 2, 3, 4, 5, 6, 7, 8]
   \<and> fst (PATCH s_at6 (append_req (Some ''6'') [7, 8, 9, 10]) (AppendFailed 2)) \<noteq> s_at6
   \<and> blobs (fst (PATCH (fst (PATCH s_at6 (append_req (Some ''6'') [7, 8, 9, 10]) (AppendFailed 2)))
          (append_req (Some ''6'') [7, 8, 9, 10]) Appended)) ''u1'' =
        Some [1, 2, 3, 4, 5, 6, 7, 8, 7, 8, 9, 10]
   \<and> map_option meta_offset
        (metas (fst (PATCH (fst (PATCH s_at6 (append_req (Some ''6'') [7, 8, 9, 10]) (AppendFailed 2)))
          (append_req (Some ''6'') [7, 8, 9, 10]) Appended)) ''u1'') = Some 10"
proof -
  let ?req = "append_req (Some ''6'') [7, 8, 9, 10]"
  let ?s = "appendFileSync s_at6 ''u1'' [7, 8]"
  have c: "parseInt (or_default (patch_upload_offset ?req) ''0'') = Num (meta_offset (meta_u1 6))"
    by (simp add: append_req_def meta_u1_def num_simps)
  have failed: "PATCH s_at6 ?req (AppendFailed 2) = (?s, respond 500 (Some ''Internal server error''))"
    using c by (simp add: PATCH_def Let_def append_req_id s_at6_metas) (simp add: append_req_def)
  have bl: "blobs ?s ''u1'' = Some [1, 2, 3, 4, 5, 6, 7, 8]"
    by (simp add: appendFileSync_def blob_of_def s_at6_blobs)
  have m: "metas ?s ''u1'' = Some (meta_u1 6)" by (simp add: appendFileSync_def s_at6_metas)
  have fl: "files ?s ''u1'' = Some (file_u1 10 6 False)" by (simp add: appendFileSync_def s_at6_files)
  note retry = PATCH_accepted [OF append_req_id m c fl]
  have differ: "?s \<noteq> s_at6"
  proof
    assume "?s = s_at6"
    then have "blobs ?s ''u1'' = blobs s_at6 ''u1''" by simp
    with bl s_at6_blobs show False by simp
  qed
  have after: "blobs (fst (PATCH ?s ?req Appended)) ''u1'' = Some [1, 2, 3, 4, 5, 6, 7, 8, 7, 8, 9, 10]
      \<and> map_option meta_offset (metas (fst (PATCH ?s ?req Appended)) ''u1'') = Some 10"
    by (simp add: retry) (simp add: append_req_def blob_of_def bl meta_u1_def)
  from failed bl differ after s_at6_blobs show ?thesis by simp
qed

section \<open>Cancel\<close>




text \<open>
  The bare id is unlinked as a file name: cancelling \<open>u1.json\<close> removes the offset record
  of the session \<open>u1\<close> and leaves its bytes and its file row.
\<close>

lemma DELETE_json_name:
  "metas s_at6 ''u1'' = Some (meta_u1 6)
   \<and> snd (DELETE s_at6 json_req) = respond 204 None
   \<and> metas (fst (DELETE s_at6 json_req)) ''u1'' = None
   \<and> blobs (fst (DELETE s_at6 json_req)) ''u1'' = Some [1, 2, 3, 4, 5, 6]
   \<and> files (fst (DELETE s_at6 json_req)) ''u1'' = Some (file_u1 10 6 False)"
proof -
  have a: "uploadId_of (req_path json_req) = Some ''u1.json''"
    by (simp add: json_req_def uploadId_of_def)
  have nd: "\<not> is_directory ''u1.json''" by (simp add: is_directory_def)
  have sj: "strip_json ''u1.json'' = Some ''u1''" by (simp add: strip_json_def)
  show ?thesis
    by (simp add: DELETE_removed [OF a nd] sj s_at6_metas s_at6_blobs s_at6_files)
qed

section \<open>Append without the offset header\<close>

text \<open>
  C10. An Append without \<open>Upload-Offset\<close> claims offset 0: on a session whose offset is
  not 0 it answers 409 with the stored offset and no mutation; on a session at offset 0 it
  is never a mismatch, and (the write succeeding, the file row present) it answers 204,
  appends the bytes and stores their number as the offset.
\<close>

theorem patch_without_offset_header:
  assumes "uploadId_of (patch_path req) = Some uploadId"
    and "metas s uploadId = Some meta"
    and "patch_upload_offset req = None"
  shows "(meta_offset meta \<noteq> 0
          \<longrightarrow> PATCH s req io =
                (s, (respond 409 (Some ''Offset mismatch''))
                      \<lparr>hdr_upload_offset := Some (meta_offset meta)\<rparr>))
       \<and> (meta_offset meta = 0
          \<longrightarrow> resp_status (snd (PATCH s req io)) \<noteq> 409
              \<and> (files s uploadId = Some f
                 \<longrightarrow> snd (PATCH s req Appended) =
                       (respond 204 None)\<lparr>hdr_upload_offset := Some (int (length (patch_body req)))\<rparr>
                     \<and> blobs (fst (PATCH s req Appended)) =
                         (if patch_body req = [] then blobs s
                          else (blobs s)(uploadId \<mapsto> blob_of s uploadId @ patch_body req))
                     \<and> metas (fst (PATCH s req Appended)) uploadId =
                         Some (meta\<lparr>meta_offset := int (length (patch_body req))\<rparr>)))"
proof -
  have zero: "parseInt (or_default (patch_upload_offset req) ''0'') = Num 0"
    using assms(3) by (simp add: num_simps)
  show ?thesis
  proof (intro conjI impI)
    assume "meta_offset meta \<noteq> 0"
    with assms(1,2) zero show "PATCH s req io =
                (s, (respond 409 (Some ''Offset mismatch''))
                      \<lparr>hdr_upload_offset := Some (meta_offset meta)\<rparr>)"
      by (simp add: PATCH_def)
  next
    assume z: "meta_offset meta = 0"
    with assms(1,2) zero show "resp_status (snd (PATCH s req io)) \<noteq> 409"
      by (simp add: PATCH_def Let_def respond_def split: append_outcome.splits option.splits)
  next
    assume z: "meta_offset meta = 0" and fl: "files s uploadId = Some f"
    from zero z have c: "parseInt (or_default (patch_upload_offset req) ''0'') = Num (meta_offset meta)"
      by simp
    note eq = PATCH_accepted [OF assms(1,2) c fl]
    show "snd (PATCH s req Appended) =
            (respond 204 None)\<lparr>hdr_upload_offset := Some (int (length (patch_body req)))\<rparr>"
      by (simp add: eq z)
    show "blobs (fst (PATCH s req Appended)) =
            (if patch_body req = [] then blobs s
             else (blobs s)(uploadId \<mapsto> blob_of s uploadId @ patch_body req))"
      by (simp add: eq)
    show "metas (fst (PATCH s req Appended)) uploadId =
            Some (meta\<lparr>meta_offset := int (length (patch_body req))\<rparr>)"
      by (simp add: eq z)
  qed
qed

theorem patch_without_offset_header_witness:
  "metas s_at6 ''u1'' = Some (meta_u1 6)
   \<and> PATCH s_at6 (append_req None [7, 8]) Appended =
       (s_at6, (respond 409 (Some ''Offset mismatch''))\<lparr>hdr_upload_offset := Some 6\<rparr>)
   \<and> metas s_created ''u1'' = Some (meta_u1 0)
   \<and> resp_status (snd (PATCH s_created (append_req None [1, 2, 3]) (AppendFailed 1))) \<noteq> 409
   \<and> snd (PATCH s_created (append_req None [1, 2, 3]) Appended) =
       (respond 204 None)\<lparr>hdr_upload_offset := Some 3\<rparr>
   \<and> blobs (fst (PATCH s_created (append_req None [1, 2, 3]) Appended)) ''u1'' = Some [1, 2, 3]
   \<and> metas (fst (PATCH s_created (append_req None [1, 2, 3]) Appended)) ''u1'' = Some (meta_u1 3)"
proof -
  have h: "patch_upload_offset (append_req None body) = None" for body
    by (simp add: append_req_def)
  from patch_without_offset_header [OF append_req_id s_at6_metas h, of "[7, 8]" Appended]
  have p1: "PATCH s_at6 (append_req None [7, 8]) Appended =
       (s_at6, (respond 409 (Some ''Offset mismatch''))\<lparr>hdr_upload_offset := Some 6\<rparr>)"
    by (simp add: meta_u1_def)
  from patch_without_offset_header [OF append_req_id s_created_metas h,
      of "[1, 2, 3]" "AppendFailed 1" "file_u1 10 0 False"] s_created_files
  have p2: "resp_status (snd (PATCH s_created (append_req None [1, 2, 3]) (AppendFailed 1))) \<noteq> 409
     \<and> snd (PATCH s_created (append_req None [1, 2, 3]) Appended) =
         (respond 204 None)\<lparr>hdr_upload_offset := Some 3\<rparr>
     \<and> blobs (fst (PATCH s_created (append_req None [1, 2, 3]) Appended)) ''u1'' = Some [1, 2, 3]
     \<and> metas (fst (PATCH s_created (append_req None [1, 2, 3]) Appended)) ''u1'' = Some (meta_u1 3)"
    by (simp add: meta_u1_def append_req_def blob_of_def s_created_blobs)
  from p1 p2 s_at6_metas s_created_metas show ?thesis by blast
qed

end
